theory Spec2Isabelle
  imports Complex_Main "HOL-Library.Word"
begin

unbundle bit_operations_syntax

section \<open>The ADS1115 pressure check\<close>

text \<open>
  The program is a single \<^verbatim>\<open>main\<close> in \<^verbatim>\<open>src/ads1115.c\<close>. Its variables are modelled
  with the types the C source gives them: \<^verbatim>\<open>uint8_t\<close> buffers as \<open>8 word\<close>, the sample
  \<^verbatim>\<open>int16_t val\<close> as \<open>16 word\<close> read through \<open>sint\<close>, the \<^verbatim>\<open>int\<close> variables as \<open>int\<close>
  (no arithmetic is done on them). A \<^verbatim>\<open>float\<close> or \<^verbatim>\<open>double\<close> value is a \<open>cfloat\<close>: a
  finite value, given by the real number it denotes, an infinity or NaN.
\<close>

type_synonym u8 = "8 word"
type_synonym i16 = "16 word"

section \<open>Floating-point values\<close>

text \<open>
  The values of the C types \<^verbatim>\<open>float\<close> and \<^verbatim>\<open>double\<close> (IEEE 754 binary32 and binary64).
  The two zeros are one value \<open>Fin 0\<close>: the program never divides by a variable, and
  its comparisons do not tell them apart.
\<close>

datatype cfloat = Fin real | PInf | NInf | NaN

text \<open>The comparisons \<^verbatim>\<open><\<close>, \<^verbatim>\<open>>\<close>, \<^verbatim>\<open><=\<close> and \<^verbatim>\<open>==\<close>: false as soon as one side is NaN.\<close>

fun flt :: "cfloat \<Rightarrow> cfloat \<Rightarrow> bool" where
  "flt (Fin x) (Fin y) = (x < y)"
| "flt NaN b = False"
| "flt a NaN = False"
| "flt a NInf = False"
| "flt PInf b = False"
| "flt NInf b = True"
| "flt a PInf = True"

definition fgt :: "cfloat \<Rightarrow> cfloat \<Rightarrow> bool" where
  "fgt a b = flt b a"

fun fle :: "cfloat \<Rightarrow> cfloat \<Rightarrow> bool" where
  "fle (Fin x) (Fin y) = (x \<le> y)"
| "fle NaN b = False"
| "fle a NaN = False"
| "fle NInf b = True"
| "fle a PInf = True"
| "fle a b = False"

fun feq :: "cfloat \<Rightarrow> cfloat \<Rightarrow> bool" where
  "feq (Fin x) (Fin y) = (x = y)"
| "feq PInf PInf = True"
| "feq NInf NInf = True"
| "feq a b = False"

text \<open>
  Arithmetic. On the special values it follows IEEE 754 (NaN propagates, \<open>inf - inf\<close>
  and \<open>0 * inf\<close> are NaN). On finite operands the result is the exact real result: the
  rounding of a computed result to the precision of its type, and its overflow, are not
  modelled. The narrowing of a value that comes from the command line is modelled, by
  \<open>narrow\<close> below.
\<close>

fun fneg :: "cfloat \<Rightarrow> cfloat" where
  "fneg (Fin x) = Fin (- x)"
| "fneg PInf = NInf"
| "fneg NInf = PInf"
| "fneg NaN = NaN"

fun fadd :: "cfloat \<Rightarrow> cfloat \<Rightarrow> cfloat" where
  "fadd (Fin x) (Fin y) = Fin (x + y)"
| "fadd NaN b = NaN"
| "fadd a NaN = NaN"
| "fadd PInf NInf = NaN"
| "fadd NInf PInf = NaN"
| "fadd PInf b = PInf"
| "fadd NInf b = NInf"
| "fadd a PInf = PInf"
| "fadd a NInf = NInf"

definition fsub :: "cfloat \<Rightarrow> cfloat \<Rightarrow> cfloat" where
  "fsub a b = fadd a (fneg b)"

fun fmul :: "cfloat \<Rightarrow> cfloat \<Rightarrow> cfloat" where
  "fmul (Fin x) (Fin y) = Fin (x * y)"
| "fmul NaN b = NaN"
| "fmul a NaN = NaN"
| "fmul (Fin x) b = (if x = 0 then NaN else if x < 0 then fneg b else b)"
| "fmul a (Fin y) = (if y = 0 then NaN else if y < 0 then fneg a else a)"
| "fmul PInf b = b"
| "fmul NInf b = fneg b"

fun fdiv :: "cfloat \<Rightarrow> cfloat \<Rightarrow> cfloat" where
  "fdiv (Fin x) (Fin y) =
     (if y = 0 then (if x = 0 then NaN else if x < 0 then NInf else PInf) else Fin (x / y))"
| "fdiv NaN b = NaN"
| "fdiv a NaN = NaN"
| "fdiv (Fin x) b = Fin 0"
| "fdiv a (Fin y) = (if y < 0 then fneg a else a)"
| "fdiv a b = NaN"

text \<open>The conversion of an \<^verbatim>\<open>int16_t\<close> to \<^verbatim>\<open>float\<close>, which is exact.\<close>

definition of_i16 :: "i16 \<Rightarrow> cfloat" where
  "of_i16 v = Fin (real_of_int (sint v))"

subsection \<open>Narrowing a double to a float\<close>

text \<open>
  Assigning a \<^verbatim>\<open>double\<close> to a \<^verbatim>\<open>float\<close> variable rounds it to the nearest binary32
  value, ties to the even significand: 24 significant bits, the smallest quantum
  \<open>pow2 (- 149)\<close>, and an infinity when the rounded magnitude reaches \<open>2 ^ 128\<close>.
\<close>

text \<open>The power of two with an integer exponent.\<close>

definition pow2 :: "int \<Rightarrow> real" where
  "pow2 e = (if 0 \<le> e then 2 ^ nat e else 1 / 2 ^ nat (- e))"

text \<open>The number of binary digits of \<open>n\<close>.\<close>

fun bits :: "nat \<Rightarrow> nat" where
  "bits n = (if n = 0 then 0 else Suc (bits (n div 2)))"

declare bits.simps [simp del]

text \<open>For \<open>a > 0\<close>, the exponent \<open>e\<close> with \<open>pow2 e \<le> a < pow2 (e + 1)\<close>.\<close>

definition ilog2 :: "real \<Rightarrow> int" where
  "ilog2 a = (if 1 \<le> a then int (bits (nat \<lfloor>a\<rfloor>)) - 1
              else - int (bits (nat (\<lceil>1 / a\<rceil> - 1))))"

text \<open>Rounding to the nearest integer, a tie to the even one.\<close>

definition rne :: "real \<Rightarrow> int" where
  "rne y = (let f = \<lfloor>y\<rfloor>; d = y - of_int f
            in if d < 1 / 2 then f else if 1 / 2 < d then f + 1
               else if even f then f else f + 1)"

definition round32 :: "real \<Rightarrow> cfloat" where
  "round32 x =
     (if x = 0 then Fin 0
      else let e = max (ilog2 \<bar>x\<bar>) (- 126);
               q = pow2 (e - 23);
               y = of_int (rne (\<bar>x\<bar> / q)) * q
           in if 2 ^ 128 \<le> y then (if x < 0 then NInf else PInf)
              else Fin (if x < 0 then - y else y))"

fun narrow :: "cfloat \<Rightarrow> cfloat" where
  "narrow (Fin x) = round32 x"
| "narrow a = a"

section \<open>The program's data\<close>

text \<open>\<^verbatim>\<open>#define minval 2090.0\<close>, \<^verbatim>\<open>#define maxval 10630.0\<close>, \<^verbatim>\<open>#define BUFSIZE 256\<close>.\<close>

definition minval :: cfloat where
  "minval = Fin 2090"

definition maxval :: cfloat where
  "maxval = Fin 10630"

definition BUFSIZE :: nat where
  "BUFSIZE = 256"

definition EXIT_FAILURE :: int where
  "EXIT_FAILURE = 1"

text \<open>The local variables of \<^verbatim>\<open>main\<close> that the command line sets (lines 44--59).\<close>

record settings =
  verbose :: int
  input :: int
  minpressure :: cfloat
  maxpressure :: cfloat
  i2cdevice :: string
  ads_address :: int
  low :: cfloat
  high :: cfloat

text \<open>
  One option as \<^verbatim>\<open>getopt\<close> hands it to the \<^verbatim>\<open>switch\<close>, with its argument already
  converted by \<^verbatim>\<open>atoi\<close>, \<^verbatim>\<open>atof\<close> or \<^verbatim>\<open>strtol\<close> (library code, taken as given):
  the argument of a constructor is the value the library function returned, for
  \<^verbatim>\<open>atof\<close> the \<^verbatim>\<open>double\<close> nearest to the number the caller wrote (or an infinity, or
  NaN). \<open>Opt_other\<close> is any character the \<^verbatim>\<open>switch\<close> sends to \<^verbatim>\<open>default\<close>.
\<close>

datatype cli_opt =
    Opt_v
  | Opt_i int
  | Opt_m cfloat
  | Opt_M cfloat
  | Opt_d string
  | Opt_a int
  | Opt_A int
  | Opt_l cfloat
  | Opt_h cfloat
  | Opt_other

text \<open>Everything the program prints, one constructor per format string.\<close>

datatype message =
    Usage
  | Input_error
  | Threshold_error
  | Debug_device string int int
  | Debug_coefficients cfloat cfloat cfloat cfloat
  | Open_error string
  | Address_error
  | Perror_write_register
  | Perror_read_conversion
  | Perror_write_select
  | Debug_sample int i16 cfloat cfloat
  | Critical_below string int cfloat cfloat
  | Critical_over string int cfloat cfloat
  | Ok_line string int cfloat

text \<open>The system calls made on the bus, in order.\<close>

datatype bus_op =
    Bus_open string
  | Bus_ioctl int
  | Bus_write "u8 list"
  | Bus_read nat
  | Bus_close

text \<open>
  What the operating system and the converter answer: the return value of \<^verbatim>\<open>open\<close>
  and of \<^verbatim>\<open>ioctl\<close>, of the \<open>k\<close>-th \<^verbatim>\<open>write\<close>, and the return value and the two bytes
  delivered by the \<open>k\<close>-th \<^verbatim>\<open>read\<close>.
\<close>

record bus =
  open_result :: "string \<Rightarrow> int"
  ioctl_result :: "int \<Rightarrow> int"
  write_result :: "nat \<Rightarrow> u8 list \<Rightarrow> int"
  read_result :: "nat \<Rightarrow> int \<times> u8 \<times> u8"

text \<open>A finished run: what was printed, the exit status, the bus calls made.\<close>

record run =
  out :: "message list"
  status :: int
  trace :: "bus_op list"

section \<open>Command line (lines 51--99)\<close>

definition defaults :: settings where
  "defaults = \<lparr> verbose = 0, input = 1, minpressure = Fin (- 1), maxpressure = Fin (- 1),
     i2cdevice = ''/dev/i2c-1'', ads_address = 0x48, low = Fin 0, high = Fin 10 \<rparr>"

text \<open>
  The body of the \<^verbatim>\<open>switch\<close>; \<open>None\<close> is the \<^verbatim>\<open>default\<close> branch, which exits.
  \<^verbatim>\<open>minpressure\<close>, \<^verbatim>\<open>maxpressure\<close>, \<^verbatim>\<open>low\<close> and \<^verbatim>\<open>high\<close> are \<^verbatim>\<open>float\<close> variables, so
  the \<^verbatim>\<open>double\<close> that \<^verbatim>\<open>atof\<close> returns is narrowed by the assignment.
\<close>

fun switch_opt :: "settings \<Rightarrow> cli_opt \<Rightarrow> settings option" where
  "switch_opt s Opt_v = Some (s\<lparr>verbose := 1\<rparr>)"
| "switch_opt s (Opt_i n) = Some (s\<lparr>input := n\<rparr>)"
| "switch_opt s (Opt_m x) = Some (s\<lparr>minpressure := narrow x\<rparr>)"
| "switch_opt s (Opt_M x) = Some (s\<lparr>maxpressure := narrow x\<rparr>)"
| "switch_opt s (Opt_d d) = Some (s\<lparr>i2cdevice := take (BUFSIZE - 1) d\<rparr>)"
| "switch_opt s (Opt_a n) = Some (s\<lparr>ads_address := n\<rparr>)"
| "switch_opt s (Opt_A n) = Some (s\<lparr>ads_address := n\<rparr>)"
| "switch_opt s (Opt_l x) = Some (s\<lparr>low := narrow x\<rparr>)"
| "switch_opt s (Opt_h x) = Some (s\<lparr>high := narrow x\<rparr>)"
| "switch_opt s Opt_other = None"

text \<open>The \<^verbatim>\<open>while ((c = getopt (...)) != -1)\<close> loop over the options in order.\<close>

fun getopt_loop :: "settings \<Rightarrow> cli_opt list \<Rightarrow> settings option" where
  "getopt_loop s [] = Some s"
| "getopt_loop s (c # cs) =
     (case switch_opt s c of None \<Rightarrow> None | Some s' \<Rightarrow> getopt_loop s' cs)"

section \<open>Coefficients (lines 111--113)\<close>

definition VPS :: cfloat where
  "VPS = fdiv (Fin 6.144) maxval"

definition slope :: "cfloat \<Rightarrow> cfloat \<Rightarrow> cfloat" where
  "slope lo hi = fdiv (fsub hi lo) (fsub maxval minval)"

definition con :: "cfloat \<Rightarrow> cfloat \<Rightarrow> cfloat" where
  "con lo hi = fmul (slope lo hi) minval"

section \<open>Configuration bytes (lines 134--154)\<close>

text \<open>The \<^verbatim>\<open>if\<close> chain that fills \<^verbatim>\<open>writeBuf[1]\<close>.\<close>

definition config_high :: "int \<Rightarrow> u8" where
  "config_high inp =
     (if inp = 1 then 0b11000001
      else if inp = 2 then 0b11010001
      else if inp = 3 then 0b11100001
      else 0b11110001)"

definition writeBuf :: "int \<Rightarrow> u8 list" where
  "writeBuf inp = [1, config_high inp, 0b10000101]"

text \<open>
  The two configuration bytes as the 16-bit register the converter receives, high byte
  first, and the field in its bits 14--12.
\<close>

definition config_word :: "int \<Rightarrow> 16 word" where
  "config_word inp = push_bit 8 (ucast (writeBuf inp ! 1)) OR ucast (writeBuf inp ! 2)"

definition mux_code :: "int \<Rightarrow> 16 word" where
  "mux_code inp = drop_bit 12 (config_word inp) AND 7"

section \<open>Sample conversion (lines 185--193)\<close>

text \<open>
  \<^verbatim>\<open>val = readBuf[0] << 8 | readBuf[1]\<close>: both bytes are promoted to \<^verbatim>\<open>int\<close>, and the
  result, between 0 and 65535, is converted to \<^verbatim>\<open>int16_t\<close> (modulo \<open>2 ^ 16\<close>).
\<close>

definition val_of_bytes :: "u8 \<Rightarrow> u8 \<Rightarrow> i16" where
  "val_of_bytes b0 b1 = word_of_int (push_bit 8 (uint b0) OR uint b1)"

text \<open>\<^verbatim>\<open>if (val < 0 || val > 32768) val = 0;\<close>\<close>

definition out_of_range :: "i16 \<Rightarrow> bool" where
  "out_of_range v = (sint v < 0 \<or> sint v > 32768)"

definition clamp_val :: "i16 \<Rightarrow> i16" where
  "clamp_val v = (if out_of_range v then 0 else v)"

definition voltage :: "i16 \<Rightarrow> cfloat" where
  "voltage v = fmul (of_i16 v) VPS"

text \<open>
  \<^verbatim>\<open>pressure = (slope * val) - con; if (pressure < 0.0) pressure = 0.0;\<close>
\<close>

definition pressure :: "cfloat \<Rightarrow> cfloat \<Rightarrow> i16 \<Rightarrow> cfloat" where
  "pressure sl cn v =
     (let p = fsub (fmul sl (of_i16 v)) cn in if flt p (Fin 0) then Fin 0 else p)"

text \<open>Lines 185--193 together: the sample, the voltage and the pressure that are used
  from there on.\<close>

definition convert :: "settings \<Rightarrow> u8 \<Rightarrow> u8 \<Rightarrow> i16 \<times> cfloat \<times> cfloat" where
  "convert s b0 b1 =
     (let v = clamp_val (val_of_bytes b0 b1)
      in (v, voltage v, pressure (slope (low s) (high s)) (con (low s) (high s)) v))"

section \<open>Verdict (lines 199--211)\<close>

text \<open>The line printed and the value given to \<^verbatim>\<open>nagiosexit\<close>.\<close>

definition verdict :: "string \<Rightarrow> int \<Rightarrow> cfloat \<Rightarrow> cfloat \<Rightarrow> cfloat \<Rightarrow> message \<times> int" where
  "verdict dev addr p mn mx =
     (if flt p mn then (Critical_below dev addr p mn, 2)
      else if fgt p mx then (Critical_over dev addr p mx, 2)
      else (Ok_line dev addr p, 0))"

text \<open>The lines that start with \<^verbatim>\<open>CRITICAL:\<close>.\<close>

fun critical :: "message \<Rightarrow> bool" where
  "critical (Critical_below d a p m) = True"
| "critical (Critical_over d a p m) = True"
| "critical m = False"

section \<open>The poll loop (lines 165--170)\<close>

text \<open>
  \<^verbatim>\<open>do { if (read(fd, writeBuf, 2) != 2) exit } while ((writeBuf[0] & 0x80) == 0)\<close>,
  from the \<open>k\<close>-th read on. The result is whether the loop ended without a failed read,
  and the number of reads made so far; \<open>None\<close> when the converter never reports ready.
\<close>

partial_function (option) poll :: "(nat \<Rightarrow> int \<times> u8 \<times> u8) \<Rightarrow> nat \<Rightarrow> (bool \<times> nat) option" where
  "poll rd k =
     (case rd k of (n, b0, b1) \<Rightarrow>
        if n \<noteq> 2 then Some (False, Suc k)
        else if b0 AND 0x80 = 0 then poll rd (Suc k)
        else Some (True, Suc k))"

section \<open>The program\<close>

text \<open>The two \<^verbatim>\<open>DEBUG\<close> lines printed before the device is opened (lines 115--118).\<close>

definition debug1 :: "settings \<Rightarrow> message list" where
  "debug1 s =
     (if verbose s \<noteq> 0
      then [Debug_device (i2cdevice s) (ads_address s) (input s),
            Debug_coefficients maxval minval (slope (low s) (high s)) (con (low s) (high s))]
      else [])"

text \<open>Lines 185--214, once both result bytes have been read.\<close>

definition report :: "settings \<Rightarrow> u8 \<Rightarrow> u8 \<Rightarrow> message list \<times> int" where
  "report s b0 b1 =
     (case convert s b0 b1 of (v, vo, p) \<Rightarrow>
        (case verdict (i2cdevice s) (ads_address s) p (minpressure s) (maxpressure s) of
           (m, e) \<Rightarrow>
             ((if verbose s \<noteq> 0 then [Debug_sample (input s - 1) v vo p] else []) @ [m], e)))"

text \<open>Lines 121--214: the bus protocol, with the calls made so far.\<close>

definition acquire :: "bus \<Rightarrow> settings \<Rightarrow> run option" where
  "acquire b s =
     (let t1 = [Bus_open (i2cdevice s)] in
      if open_result b (i2cdevice s) < 0
      then Some \<lparr>out = debug1 s @ [Open_error (i2cdevice s)], status = EXIT_FAILURE, trace = t1\<rparr>
      else let t2 = t1 @ [Bus_ioctl (ads_address s)] in
      if ioctl_result b (ads_address s) < 0
      then Some \<lparr>out = debug1 s @ [Address_error], status = EXIT_FAILURE, trace = t2\<rparr>
      else let t3 = t2 @ [Bus_write (writeBuf (input s))] in
      if write_result b 0 (writeBuf (input s)) \<noteq> 3
      then Some \<lparr>out = debug1 s @ [Perror_write_register], status = EXIT_FAILURE, trace = t3\<rparr>
      else
        (case poll (read_result b) 0 of
           None \<Rightarrow> None
         | Some (ready, k) \<Rightarrow>
             let t4 = t3 @ replicate k (Bus_read 2) in
             if \<not> ready
             then Some \<lparr>out = debug1 s @ [Perror_read_conversion], status = EXIT_FAILURE,
                        trace = t4\<rparr>
             else let t5 = t4 @ [Bus_write [0]] in
             if write_result b 1 [0] \<noteq> 1
             then Some \<lparr>out = debug1 s @ [Perror_write_select], status = EXIT_FAILURE,
                        trace = t5\<rparr>
             else let t6 = t5 @ [Bus_read 2] in
               (case read_result b k of (n, b0, b1) \<Rightarrow>
                  if n \<noteq> 2
                  then Some \<lparr>out = debug1 s @ [Perror_read_conversion], status = EXIT_FAILURE,
                             trace = t6\<rparr>
                  else
                    (case report s b0 b1 of (ms, e) \<Rightarrow>
                       Some \<lparr>out = debug1 s @ ms, status = e, trace = t6 @ [Bus_close]\<rparr>))))"

text \<open>The whole of \<^verbatim>\<open>main\<close>: option parsing, the two argument checks, then the bus.\<close>

definition main :: "bus \<Rightarrow> cli_opt list \<Rightarrow> run option" where
  "main b args =
     (case getopt_loop defaults args of
        None \<Rightarrow> Some \<lparr>out = [Usage], status = EXIT_FAILURE, trace = []\<rparr>
      | Some s \<Rightarrow>
          if input s < 1 \<or> input s > 4
          then Some \<lparr>out = [Input_error], status = EXIT_FAILURE, trace = []\<rparr>
          else if feq (minpressure s) (Fin (- 1)) \<or> feq (maxpressure s) (Fin (- 1))
          then Some \<lparr>out = [Threshold_error], status = EXIT_FAILURE, trace = []\<rparr>
          else acquire b s)"

text \<open>
  A bus on which everything succeeds: the converter reports busy on the first poll, ready
  on the second, and then delivers the result bytes \<open>b0\<close>, \<open>b1\<close>.
\<close>

definition ready_bus :: "u8 \<Rightarrow> u8 \<Rightarrow> bus" where
  "ready_bus b0 b1 =
     \<lparr> open_result = (\<lambda>_. 3), ioctl_result = (\<lambda>_. 0),
       write_result = (\<lambda>_ bs. int (length bs)),
       read_result = (\<lambda>k. if k = 0 then (2, 0x01, 0x85)
                           else if k = 1 then (2, 0x81, 0x85) else (2, b0, b1)) \<rparr>"


section \<open>Facts about floating-point values\<close>

lemma flt_irrefl: "\<not> flt a a"
  by (cases a) simp_all

lemma flt_NaN_right: "\<not> flt a NaN"
  by (cases a) simp_all

lemma fle_not_flt: "fle a b \<Longrightarrow> \<not> flt b a"
  by (cases a; cases b) simp_all

lemma flt_total: "a \<noteq> NaN \<Longrightarrow> b \<noteq> NaN \<Longrightarrow> flt a b \<or> a = b \<or> flt b a"
  by (cases a; cases b) auto

lemma flt_trans: "flt a b \<Longrightarrow> flt b c \<Longrightarrow> flt a c"
  by (cases a; cases b; cases c) auto

lemma flt_not_NaN: "flt a b \<Longrightarrow> a \<noteq> NaN \<and> b \<noteq> NaN"
  by (cases a; cases b) auto

lemma feq_Fin: "feq a (Fin x) \<longleftrightarrow> a = Fin x"
  by (cases a) auto

subsection \<open>Narrowing\<close>

lemma pow2_powr: "pow2 e = 2 powr (real_of_int e)"
  by (simp add: pow2_def powr_real_of_int inverse_eq_divide)

lemma pow2_pos: "0 < pow2 e"
  by (simp add: pow2_powr)

lemma pow2_mono: "e \<le> e' \<Longrightarrow> pow2 e \<le> pow2 e'"
  by (simp add: pow2_powr)

lemma pow2_add: "pow2 (i + j) = pow2 i * pow2 j"
  by (simp add: pow2_powr powr_add)

lemma bits_one: "bits (Suc 0) = 1"
  by (simp add: bits.simps)

lemma bits_pos: "0 < n \<Longrightarrow> 0 < bits n"
  by (subst bits.simps) simp

lemma bits_ge_two: "2 \<le> n \<Longrightarrow> 2 \<le> bits n"
proof -
  assume "2 \<le> n"
  then have "0 < n div 2" by simp
  then have "0 < bits (n div 2)" by (rule bits_pos)
  with \<open>2 \<le> n\<close> show ?thesis by (subst bits.simps) simp
qed

lemma bits_lower: "0 < n \<Longrightarrow> 2 ^ (bits n - 1) \<le> n"
proof (induction n rule: bits.induct)
  case (1 n)
  show ?case
  proof (cases "n div 2 = 0")
    case True
    with "1.prems" have b: "bits n = 1" by (subst bits.simps) (simp add: bits.simps)
    from "1.prems" show ?thesis by (simp add: b)
  next
    case False
    then have p: "0 < n div 2" by simp
    with "1.IH" "1.prems" have ih: "2 ^ (bits (n div 2) - 1) \<le> n div 2" by simp
    from p have "0 < bits (n div 2)" by (rule bits_pos)
    then have "(2::nat) ^ bits (n div 2) = 2 * 2 ^ (bits (n div 2) - 1)"
      by (cases "bits (n div 2)") simp_all
    with ih have "(2::nat) ^ bits (n div 2) \<le> 2 * (n div 2)" by simp
    also have "\<dots> \<le> n" by simp
    finally have "(2::nat) ^ bits (n div 2) \<le> n" .
    moreover from "1.prems" have "bits n = Suc (bits (n div 2))" by (subst bits.simps) simp
    ultimately show ?thesis by simp
  qed
qed

lemma rne_upper: "real_of_int (rne y) \<le> y + 1 / 2"
  unfolding rne_def Let_def by (auto; linarith)

lemma rne_lower: "y - 1 / 2 \<le> real_of_int (rne y)"
  unfolding rne_def Let_def by (auto; linarith)

lemma rne_nonneg: "0 \<le> y \<Longrightarrow> 0 \<le> rne y"
  unfolding rne_def Let_def by (auto simp add: zero_le_floor) 

lemma rne_eq_even:
  assumes "even n"
  shows "rne y = n \<longleftrightarrow> real_of_int n - 1 / 2 \<le> y \<and> y \<le> real_of_int n + 1 / 2"
proof
  assume "rne y = n"
  with rne_upper [of y] rne_lower [of y] show "real_of_int n - 1 / 2 \<le> y \<and> y \<le> real_of_int n + 1 / 2"
    by auto
next
  assume b: "real_of_int n - 1 / 2 \<le> y \<and> y \<le> real_of_int n + 1 / 2"
  consider "\<lfloor>y\<rfloor> = n - 1" | "\<lfloor>y\<rfloor> = n" | "\<lfloor>y\<rfloor> = n + 1"
  proof -
    from b have "real_of_int (n - 1) \<le> y" "y < real_of_int (n + 2)" by simp_all
    then have "n - 1 \<le> \<lfloor>y\<rfloor>" "\<lfloor>y\<rfloor> < n + 2" by (simp_all add: le_floor_iff floor_less_iff)
    then have "\<lfloor>y\<rfloor> = n - 1 \<or> \<lfloor>y\<rfloor> = n \<or> \<lfloor>y\<rfloor> = n + 1" by arith
    with that show thesis by blast
  qed
  then show "rne y = n"
  proof cases
    case 1
    with b have "y - real_of_int \<lfloor>y\<rfloor> \<ge> 1 / 2" by simp
    with 1 assms show ?thesis by (auto simp add: rne_def Let_def)
  next
    case 2
    with b have "y - real_of_int \<lfloor>y\<rfloor> \<le> 1 / 2" by simp
    with 2 assms show ?thesis by (auto simp add: rne_def Let_def)
  next
    case 3
    then have "real_of_int (n + 1) \<le> y" by (metis of_int_floor_le)
    with b show ?thesis by simp
  qed
qed

lemma round32_eq_minus_one_iff:
  "round32 x = Fin (- 1) \<longleftrightarrow> - (1 + 1 / 2 ^ 24) \<le> x \<and> x \<le> - (1 - 1 / 2 ^ 25)"
proof (cases "x < 0")
  case False
  have "round32 x \<noteq> Fin (- 1)"
  proof (cases "x = 0")
    case True
    then show ?thesis by (simp add: round32_def)
  next
    case nz: False
    let ?q = "pow2 (max (ilog2 \<bar>x\<bar>) (- 126) - 23)"
    have "0 < ?q" by (rule pow2_pos)
    then have "0 \<le> real_of_int (rne (\<bar>x\<bar> / ?q)) * ?q"
      using rne_nonneg [of "\<bar>x\<bar> / ?q"] by simp
    with False nz show ?thesis
      by (auto simp add: round32_def Let_def)
  qed
  with False show ?thesis by auto
next
  case neg: True
  define a where "a = \<bar>x\<bar>"
  define e where "e = max (ilog2 a) (- 126)"
  define q where "q = pow2 (e - 23)"
  define y where "y = real_of_int (rne (a / q)) * q"
  from neg have apos: "0 < a" and xa: "x = - a" by (simp_all add: a_def)
  have r: "round32 x = (if 2 ^ 128 \<le> y then NInf else Fin (- y))"
    using neg by (simp add: round32_def Let_def y_def q_def e_def a_def)
  have iff1: "round32 x = Fin (- 1) \<longleftrightarrow> y = 1"
    by (auto simp add: r)
  have qpos: "0 < q" by (simp add: q_def pow2_pos)
  have yup: "y \<le> a + q / 2"
  proof -
    have "real_of_int (rne (a / q)) * q \<le> (a / q + 1 / 2) * q"
      using rne_upper [of "a / q"] qpos by (simp only: mult_le_cancel_right_pos)
    also have "\<dots> = a + q / 2" using qpos by (simp add: field_simps)
    finally show ?thesis by (simp add: y_def)
  qed
  have ylo: "a - q / 2 \<le> y"
  proof -
    have "(a / q - 1 / 2) * q \<le> real_of_int (rne (a / q)) * q"
      using rne_lower [of "a / q"] qpos by (simp only: mult_le_cancel_right_pos)
    moreover have "(a / q - 1 / 2) * q = a - q / 2" using qpos by (simp add: field_simps)
    ultimately show ?thesis by (simp add: y_def)
  qed
  consider (A) "1 \<le> a" "a < 2" | (B) "1 / 2 \<le> a" "a < 1" | (C) "2 \<le> a" | (D) "a < 1 / 2"
    by linarith
  then have "y = 1 \<longleftrightarrow> 1 - 1 / 2 ^ 25 \<le> a \<and> a \<le> 1 + 1 / 2 ^ 24"
  proof cases
    case A
    then have "\<lfloor>a\<rfloor> = 1" by (simp add: floor_eq_iff)
    with A have "ilog2 a = 0" by (simp add: ilog2_def bits_one)
    then have q: "q = 1 / 2 ^ 23" by (simp add: q_def e_def pow2_def)
    have "y = 1 \<longleftrightarrow> rne (a * 2 ^ 23) = 2 ^ 23"
    proof -
      have "y = 1 \<longleftrightarrow> real_of_int (rne (a * 2 ^ 23)) = real_of_int (2 ^ 23)"
        by (simp add: y_def q field_simps)
      then show ?thesis by (simp only: of_int_eq_iff)
    qed
    also have "\<dots> \<longleftrightarrow> real_of_int (2 ^ 23) - 1 / 2 \<le> a * 2 ^ 23 \<and> a * 2 ^ 23 \<le> real_of_int (2 ^ 23) + 1 / 2"
      by (rule rne_eq_even) simp
    also have "\<dots> \<longleftrightarrow> 1 - 1 / 2 ^ 25 \<le> a \<and> a \<le> 1 + 1 / 2 ^ 24"
      using A by auto
    finally show ?thesis .
  next
    case B
    then have "1 < 1 / a" "1 / a \<le> 2" using apos by (simp_all add: field_simps)
    then have "\<lceil>1 / a\<rceil> = 2" by (simp add: ceiling_eq_iff)
    with B have "ilog2 a = - 1" by (simp add: ilog2_def bits_one)
    then have q: "q = 1 / 2 ^ 24" by (simp add: q_def e_def pow2_def)
    have "y = 1 \<longleftrightarrow> rne (a * 2 ^ 24) = 2 ^ 24"
    proof -
      have "y = 1 \<longleftrightarrow> real_of_int (rne (a * 2 ^ 24)) = real_of_int (2 ^ 24)"
        by (simp add: y_def q field_simps)
      then show ?thesis by (simp only: of_int_eq_iff)
    qed
    also have "\<dots> \<longleftrightarrow> real_of_int (2 ^ 24) - 1 / 2 \<le> a * 2 ^ 24 \<and> a * 2 ^ 24 \<le> real_of_int (2 ^ 24) + 1 / 2"
      by (rule rne_eq_even) simp
    also have "\<dots> \<longleftrightarrow> 1 - 1 / 2 ^ 25 \<le> a \<and> a \<le> 1 + 1 / 2 ^ 24"
      using B by auto
    finally show ?thesis .
  next
    case C
    define n where "n = nat \<lfloor>a\<rfloor>"
    from C have n2: "2 \<le> n" by (simp add: n_def le_nat_iff le_floor_iff)
    then have b2: "2 \<le> bits n" by (rule bits_ge_two)
    from C have il: "ilog2 a = int (bits n) - 1" by (simp add: ilog2_def n_def)
    with b2 have e: "e = int (bits n - 1)" by (simp add: e_def)
    have "real (2 ^ (bits n - 1)) \<le> real n"
      using bits_lower [of n] n2 by (simp only: of_nat_le_iff)
    also have "real n \<le> a" using C by (simp add: n_def)
    finally have pa: "2 ^ (bits n - 1) \<le> a" by simp
    have "q = pow2 (int (bits n - 1)) * pow2 (- 23)"
      using pow2_add [of "int (bits n - 1)" "- 23"] by (simp add: q_def e)
    also have "pow2 (int (bits n - 1)) = 2 ^ (bits n - 1)" by (simp add: pow2_def)
    finally have "q = 2 ^ (bits n - 1) / 2 ^ 23" by (simp add: pow2_def)
    with pa have "q \<le> a / 2 ^ 23" by (simp add: divide_right_mono)
    with ylo C have "1 < y" by simp
    with C show ?thesis by simp
  next
    case D
    then have "2 < 1 / a" using apos by (simp add: field_simps)
    then have "3 \<le> \<lceil>1 / a\<rceil>" by (simp add: le_ceiling_iff)
    then have "2 \<le> nat (\<lceil>1 / a\<rceil> - 1)" by linarith
    then have "2 \<le> bits (nat (\<lceil>1 / a\<rceil> - 1))" by (rule bits_ge_two)
    with D have "ilog2 a \<le> - 2" by (simp add: ilog2_def)
    then have "e \<le> - 2" by (simp add: e_def)
    then have "q \<le> pow2 (- 25)" unfolding q_def by (intro pow2_mono) simp
    then have "q \<le> 1 / 2 ^ 25" by (simp add: pow2_def)
    with yup D have "y < 1" by simp
    with D show ?thesis by simp
  qed
  with iff1 xa show ?thesis by auto
qed

text \<open>Some values of the narrowing, computed.\<close>

lemma round32_minus_one: "round32 (- 1) = Fin (- 1)"
  by (simp add: round32_def ilog2_def pow2_def rne_def bits.simps Let_def)

lemma round32_near_minus_one: "round32 (- (1073741825 / 1073741824)) = Fin (- 1)"
  by (simp add: round32_def ilog2_def pow2_def rne_def bits.simps Let_def)

lemma round32_examples: "round32 8 = Fin 8 \<and> round32 2 = Fin 2 \<and> round32 (- 2) = Fin (- 2)"
  by (simp add: round32_def ilog2_def pow2_def rne_def bits.simps Let_def)

lemma round32_tenth: "round32 (1 / 10) = Fin (13421773 / 2 ^ 27)"
  by (simp add: round32_def ilog2_def pow2_def rne_def bits.simps Let_def)

lemma round32_overflow: "round32 (10 ^ 39) = PInf"
  by (simp add: round32_def ilog2_def pow2_def rne_def bits.simps Let_def)

section \<open>Facts about the sample\<close>

lemma sint_val_of_bytes_neg: "sint (val_of_bytes b0 b1) < 0 \<longleftrightarrow> b0 AND 0x80 \<noteq> 0"
proof -
  have "sint (val_of_bytes b0 b1) < 0 \<longleftrightarrow> bit (val_of_bytes b0 b1) 15"
    using bit_last_iff [of "val_of_bytes b0 b1"] by simp
  also have "\<dots> \<longleftrightarrow> bit b0 7"
    by (auto simp add: val_of_bytes_def bit_simps dest: bit_imp_le_length)
  also have "\<dots> \<longleftrightarrow> b0 AND 0x80 \<noteq> 0"
    using and_exp_eq_0_iff_not_bit [of b0 7] by simp
  finally show ?thesis .
qed

lemma sint_i16_range: "- 32768 \<le> sint (v :: i16) \<and> sint v \<le> 32767"
  using sint_ge [of v] sint_lt [of v] by simp

lemma out_of_range_iff_negative: "out_of_range v \<longleftrightarrow> sint v < 0"
  using sint_i16_range [of v] by (auto simp add: out_of_range_def)

text \<open>
  C8. The sample composed from the two result bytes is a signed 16-bit value, so it lies
  between -32768 and 32767 and the test \<^verbatim>\<open>val > 32768\<close> never holds; the clamp replaces
  the sample exactly when bit 7 of the first result byte is set, that is when the sample
  is negative. The wire value 40000 (bytes 0x9C, 0x40) is the sample -25536 and is
  clamped to 0 by the negative branch.
\<close>

theorem sample_is_int16_clamp_on_sign_bit:
  "- 32768 \<le> sint (val_of_bytes b0 b1) \<and> sint (val_of_bytes b0 b1) \<le> 32767
   \<and> \<not> sint (val_of_bytes b0 b1) > 32768
   \<and> (out_of_range (val_of_bytes b0 b1) = (b0 AND 0x80 \<noteq> 0))
   \<and> ((clamp_val (val_of_bytes b0 b1) \<noteq> val_of_bytes b0 b1) = (b0 AND 0x80 \<noteq> 0))
   \<and> uint (val_of_bytes 0x9C 0x40) = 40000
   \<and> sint (val_of_bytes 0x9C 0x40) < 0
   \<and> sint (val_of_bytes 0x9C 0x40) = - 25536
   \<and> clamp_val (val_of_bytes 0x9C 0x40) = 0"
proof -
  let ?v = "val_of_bytes b0 b1"
  have r: "- 32768 \<le> sint ?v \<and> sint ?v \<le> 32767"
    by (rule sint_i16_range)
  have o: "out_of_range ?v = (b0 AND 0x80 \<noteq> 0)"
    by (simp add: out_of_range_iff_negative sint_val_of_bytes_neg)
  have c: "(clamp_val ?v \<noteq> ?v) = (b0 AND 0x80 \<noteq> 0)"
  proof (cases "out_of_range ?v")
    case True
    then have "sint ?v < 0" by (simp add: out_of_range_iff_negative)
    then have "?v \<noteq> 0" by auto
    with True o show ?thesis by (simp add: clamp_val_def)
  next
    case False
    with o show ?thesis by (simp add: clamp_val_def)
  qed
  have e: "uint (val_of_bytes 0x9C 0x40) = 40000 \<and> sint (val_of_bytes 0x9C 0x40) = - 25536
    \<and> clamp_val (val_of_bytes 0x9C 0x40) = 0"
    by (simp add: val_of_bytes_def clamp_val_def out_of_range_def)
  from r o c e show ?thesis by simp
qed


lemma slope_Fin: "slope (Fin lo) (Fin hi) = Fin ((hi - lo) / 8540)"
  by (simp add: slope_def fsub_def minval_def maxval_def)

lemma con_Fin: "con (Fin lo) (Fin hi) = Fin ((hi - lo) / 8540 * 2090)"
  by (simp add: con_def slope_Fin minval_def)

lemma pressure_Fin:
  "pressure (Fin sl) (Fin cn) v =
     Fin (let p = sl * real_of_int (sint v) - cn in if p < 0 then 0 else p)"
  by (simp add: pressure_def of_i16_def fsub_def Let_def)

text \<open>
  C2. A sample that is negative or above 32768 is replaced by 0 before the voltage, the
  pressure and the report are computed: the conversion yields the sample 0, the voltage 0
  and the pressure of the sample 0, and the report is the one of the result bytes 0, 0.
  The pressure of the sample 0 is never below 0; for finite endpoints it is \<open>- con\<close>
  floored at 0.
\<close>

theorem out_of_range_sample_converted_as_zero:
  assumes "sint (val_of_bytes b0 b1) < 0 \<or> sint (val_of_bytes b0 b1) > 32768"
  shows "clamp_val (val_of_bytes b0 b1) = 0
    \<and> convert s b0 b1 = (0, Fin 0, pressure (slope (low s) (high s)) (con (low s) (high s)) 0)
    \<and> pressure (slope (Fin lo) (Fin hi)) (con (Fin lo) (Fin hi)) 0
        = (if flt (fneg (con (Fin lo) (Fin hi))) (Fin 0) then Fin 0
           else fneg (con (Fin lo) (Fin hi)))
    \<and> \<not> flt (pressure (slope (low s) (high s)) (con (low s) (high s)) 0) (Fin 0)
    \<and> report s b0 b1 = report s 0 0"
proof -
  have c: "clamp_val (val_of_bytes b0 b1) = 0"
    using assms by (simp add: clamp_val_def out_of_range_def)
  have z: "clamp_val (val_of_bytes 0 0) = 0"
    by (simp add: clamp_val_def val_of_bytes_def)
  have cv: "convert s b0 b1 = convert s 0 0"
    by (simp add: convert_def c z)
  have v: "voltage 0 = Fin 0"
    by (simp add: voltage_def of_i16_def VPS_def maxval_def)
  have p: "pressure (slope (Fin lo) (Fin hi)) (con (Fin lo) (Fin hi)) 0
        = (if flt (fneg (con (Fin lo) (Fin hi))) (Fin 0) then Fin 0
           else fneg (con (Fin lo) (Fin hi)))"
    by (simp add: slope_Fin con_Fin pressure_Fin)
  have n: "\<not> flt (pressure (slope (low s) (high s)) (con (low s) (high s)) 0) (Fin 0)"
    by (simp add: pressure_def Let_def)
  show ?thesis
    by (simp add: c cv report_def p n) (simp add: convert_def z v)
qed

theorem out_of_range_sample_converted_as_zero_witness:
  "(sint (val_of_bytes 0x9C 0x40) < 0 \<or> sint (val_of_bytes 0x9C 0x40) > 32768)
   \<and> clamp_val (val_of_bytes 0x9C 0x40) = 0
   \<and> convert defaults 0x9C 0x40 = (0, Fin 0, Fin 0)
   \<and> report defaults 0x9C 0x40 = report defaults 0 0"
proof -
  have h: "sint (val_of_bytes 0x9C 0x40) < 0 \<or> sint (val_of_bytes 0x9C 0x40) > 32768"
    by (simp add: val_of_bytes_def)
  have p: "pressure (slope (low defaults) (high defaults)) (con (low defaults) (high defaults)) 0
      = Fin 0"
    by (simp add: slope_Fin con_Fin pressure_Fin defaults_def)
  from h out_of_range_sample_converted_as_zero [OF h, of defaults] p show ?thesis
    by simp
qed

section \<open>Facts about the configuration bytes\<close>

text \<open>
  C3. For the channels 1 to 4 the three bytes written are the register pointer 1, the
  high byte 0b11000001, 0b11010001, 0b11100001, 0b11110001 respectively, and the low
  byte 0b10000101; bits 14--12 of the 16-bit configuration word hold 0b100, 0b101,
  0b110, 0b111, strictly increasing with the channel number.
\<close>

theorem config_bytes_per_channel:
  "writeBuf 1 = [1, 0b11000001, 0b10000101]
   \<and> writeBuf 2 = [1, 0b11010001, 0b10000101]
   \<and> writeBuf 3 = [1, 0b11100001, 0b10000101]
   \<and> writeBuf 4 = [1, 0b11110001, 0b10000101]
   \<and> mux_code 1 = 0b100 \<and> mux_code 2 = 0b101 \<and> mux_code 3 = 0b110 \<and> mux_code 4 = 0b111
   \<and> (\<forall>i j. 1 \<le> i \<and> i < j \<and> j \<le> 4 \<longrightarrow> mux_code i < mux_code j)"
proof -
  have m: "mux_code 1 = 4 \<and> mux_code 2 = 5 \<and> mux_code 3 = 6 \<and> mux_code 4 = 7"
    by (simp add: mux_code_def config_word_def writeBuf_def config_high_def)
  have inc: "mux_code i < mux_code j" if "1 \<le> i" "i < j" "j \<le> 4" for i j
  proof -
    from that have "i \<in> {1, 2, 3}" "j \<in> {2, 3, 4}" by auto
    with \<open>i < j\<close> m show ?thesis by auto
  qed
  show ?thesis using m inc by (simp add: writeBuf_def config_high_def)
qed

theorem config_bytes_per_channel_witness:
  "mux_code 1 < mux_code 2 \<and> mux_code 2 < mux_code 3 \<and> mux_code 3 < mux_code 4
   \<and> writeBuf 3 = [1, 0xE1, 0x85]"
  using config_bytes_per_channel by simp

section \<open>Facts about the pressure transform\<close>

text \<open>
  What the transform gives at the two calibration samples, for any finite endpoints: 0
  at the 4 mA sample 2090, and \<open>hi - lo\<close> (floored at 0) at the 20 mA sample 10630.
\<close>

lemma pressure_at_calibration_samples:
  "pressure (slope (Fin lo) (Fin hi)) (con (Fin lo) (Fin hi)) 2090 = Fin 0
   \<and> pressure (slope (Fin lo) (Fin hi)) (con (Fin lo) (Fin hi)) 10630
       = Fin (if hi < lo then 0 else hi - lo)"
  by (simp add: slope_Fin con_Fin pressure_Fin Let_def field_simps)

text \<open>A NaN endpoint makes every pressure NaN.\<close>

lemma pressure_NaN_low: "pressure (slope NaN hi) (con NaN hi) v = NaN"
  by (cases hi)
    (simp_all add: pressure_def slope_def con_def fsub_def minval_def maxval_def of_i16_def)

text \<open>
  C1. Round trip through the calibration samples: \<open>low\<close> is documented as the pressure
  at 4 mA (sample 2090) and \<open>high\<close> as the pressure at 20 mA (sample 10630). With the
  endpoints \<open>low = 1\<close>, \<open>high = 11\<close> the code gives 0 at 2090 and 10 at 10630: the
  result bytes 0x08, 0x2A (the sample 2090) are converted to the pressure 0, not 1, and
  the bytes 0x29, 0x86 (the sample 10630) to the pressure 10, not 11.
\<close>

theorem endpoints_1_11_give_0_and_10:
  "pressure (slope (Fin 1) (Fin 11)) (con (Fin 1) (Fin 11)) 2090 = Fin 0
   \<and> pressure (slope (Fin 1) (Fin 11)) (con (Fin 1) (Fin 11)) 10630 = Fin 10
   \<and> convert (defaults\<lparr>low := Fin 1, high := Fin 11\<rparr>) 0x08 0x2A
       = (2090, fmul (Fin 2090) VPS, Fin 0)
   \<and> convert (defaults\<lparr>low := Fin 1, high := Fin 11\<rparr>) 0x29 0x86
       = (10630, fmul (Fin 10630) VPS, Fin 10)"
  by (simp add: slope_Fin con_Fin pressure_Fin convert_def
      val_of_bytes_def clamp_val_def out_of_range_def voltage_def of_i16_def defaults_def)

text \<open>
  C5. Whatever the sample and the coefficients (finite, infinite or NaN, so whatever the
  endpoints), the pressure computed is never below 0; for finite coefficients it is a
  value at or above 0. The same holds of the pressure the conversion hands to the report.
\<close>

theorem pressure_never_negative:
  "\<not> flt (pressure sl cn v) (Fin 0)
   \<and> fle (Fin 0) (pressure (Fin a) (Fin c) v)
   \<and> fle (Fin 0) (pressure (slope (Fin lo) (Fin hi)) (con (Fin lo) (Fin hi)) v)
   \<and> \<not> flt (snd (snd (convert s b0 b1))) (Fin 0)"
proof -
  have n: "\<not> flt (pressure sl cn v) (Fin 0)" for sl cn v
    by (simp add: pressure_def Let_def)
  have f: "fle (Fin 0) (pressure (Fin a) (Fin c) v)" for a c v
    by (simp add: pressure_def Let_def fsub_def of_i16_def)
  show ?thesis
    using n f by (simp add: slope_Fin con_Fin convert_def Let_def)
qed




section \<open>Facts about the verdict\<close>

text \<open>
  C4, as the code has it. The verdict is CRITICAL (exit status 2) when the reading is
  below the minimum, CRITICAL when it is above the maximum, and OK (exit status 0)
  otherwise. A reading equal to either bound is OK when the minimum is at most the
  maximum; when the minimum is above the maximum, a reading equal to the minimum is
  CRITICAL as over the maximum and a reading equal to the maximum is CRITICAL as below
  the minimum.
\<close>

theorem verdict_by_bounds:
  "(flt p mn \<longrightarrow> critical (fst (verdict d a p mn mx)) \<and> snd (verdict d a p mn mx) = 2)
   \<and> (fgt p mx \<longrightarrow> critical (fst (verdict d a p mn mx)) \<and> snd (verdict d a p mn mx) = 2)
   \<and> (\<not> flt p mn \<and> \<not> fgt p mx \<longrightarrow> verdict d a p mn mx = (Ok_line d a p, 0))
   \<and> (fle mn mx \<longrightarrow> verdict d a mn mn mx = (Ok_line d a mn, 0)
                   \<and> verdict d a mx mn mx = (Ok_line d a mx, 0))
   \<and> (fgt mn mx \<longrightarrow> verdict d a mn mn mx = (Critical_over d a mn mx, 2)
                   \<and> verdict d a mx mn mx = (Critical_below d a mx mn, 2))"
  by (auto simp add: verdict_def fgt_def flt_irrefl dest: fle_not_flt)

theorem verdict_by_bounds_witness:
  "flt (Fin 1) (Fin 2) \<and> critical (fst (verdict ''/dev/i2c-1'' 72 (Fin 1) (Fin 2) (Fin 8)))
   \<and> snd (verdict ''/dev/i2c-1'' 72 (Fin 1) (Fin 2) (Fin 8)) = 2
   \<and> fgt (Fin 9) (Fin 8) \<and> critical (fst (verdict ''/dev/i2c-1'' 72 (Fin 9) (Fin 2) (Fin 8)))
   \<and> snd (verdict ''/dev/i2c-1'' 72 (Fin 9) (Fin 2) (Fin 8)) = 2
   \<and> verdict ''/dev/i2c-1'' 72 (Fin 5) (Fin 2) (Fin 8) = (Ok_line ''/dev/i2c-1'' 72 (Fin 5), 0)
   \<and> fle (Fin 2) (Fin 8)
   \<and> verdict ''/dev/i2c-1'' 72 (Fin 2) (Fin 2) (Fin 8) = (Ok_line ''/dev/i2c-1'' 72 (Fin 2), 0)
   \<and> verdict ''/dev/i2c-1'' 72 (Fin 8) (Fin 2) (Fin 8) = (Ok_line ''/dev/i2c-1'' 72 (Fin 8), 0)
   \<and> fgt (Fin 8) (Fin 2)
   \<and> verdict ''/dev/i2c-1'' 72 (Fin 2) (Fin 8) (Fin 2)
       = (Critical_below ''/dev/i2c-1'' 72 (Fin 2) (Fin 8), 2)"
  using verdict_by_bounds [of "Fin 1" "Fin 2" "''/dev/i2c-1''" 72 "Fin 8"]
    verdict_by_bounds [of "Fin 9" "Fin 2" "''/dev/i2c-1''" 72 "Fin 8"]
    verdict_by_bounds [of "Fin 5" "Fin 2" "''/dev/i2c-1''" 72 "Fin 8"]
    verdict_by_bounds [of "Fin 5" "Fin 8" "''/dev/i2c-1''" 72 "Fin 2"]
  by (simp add: fgt_def)

text \<open>
  C4 as stated lets a reading equal to either bound be OK for every pair of bounds. With
  the minimum 8 and the maximum 2, the reading 8 equals the minimum and is CRITICAL: the
  first comparison fails and the second, \<open>8 > 2\<close>, holds.
\<close>

theorem verdict_equal_to_min_inverted_counterexample:
  "verdict ''/dev/i2c-1'' 72 (Fin 8) (Fin 8) (Fin 2)
     = (Critical_over ''/dev/i2c-1'' 72 (Fin 8) (Fin 2), 2)
   \<and> verdict ''/dev/i2c-1'' 72 (Fin 8) (Fin 8) (Fin 2) \<noteq> (Ok_line ''/dev/i2c-1'' 72 (Fin 8), 0)"
  by (simp add: verdict_def fgt_def)

text \<open>
  C10, as the code has it. When the minimum is above the maximum, every reading that is
  not NaN is CRITICAL with exit status 2, and a reading below the minimum and above the
  maximum is reported with the below-minimum line, the first comparison made. A NaN
  reading fails both comparisons and is reported OK.
\<close>

theorem inverted_bounds_critical_unless_nan:
  assumes "fgt mn mx"
  shows "(p \<noteq> NaN \<longrightarrow> critical (fst (verdict d a p mn mx)) \<and> snd (verdict d a p mn mx) = 2
            \<and> verdict d a p mn mx \<noteq> (Ok_line d a p, 0))
    \<and> (flt p mn \<and> fgt p mx \<longrightarrow> verdict d a p mn mx = (Critical_below d a p mn, 2))
    \<and> verdict d a NaN mn mx = (Ok_line d a NaN, 0)"
proof -
  have t: "flt p mn \<or> flt mx p" if "p \<noteq> NaN"
  proof -
    from assms have n: "mn \<noteq> NaN" "mx \<noteq> NaN" "flt mx mn"
      using flt_not_NaN [of mx mn] by (simp_all add: fgt_def)
    from flt_total [OF that n(1)] show ?thesis
    proof (elim disjE)
      assume "p = mn"
      with n(3) show ?thesis by simp
    next
      assume "flt mn p"
      with n(3) flt_trans [of mx mn p] show ?thesis by simp
    qed simp
  qed
  show ?thesis using t by (auto simp add: verdict_def fgt_def flt_NaN_right)
qed

theorem inverted_bounds_critical_unless_nan_witness:
  "fgt (Fin 8) (Fin 2) \<and> critical (fst (verdict ''/dev/i2c-1'' 72 (Fin 5) (Fin 8) (Fin 2)))
   \<and> snd (verdict ''/dev/i2c-1'' 72 (Fin 5) (Fin 8) (Fin 2)) = 2
   \<and> flt (Fin 5) (Fin 8) \<and> fgt (Fin 5) (Fin 2)
   \<and> verdict ''/dev/i2c-1'' 72 (Fin 5) (Fin 8) (Fin 2)
       = (Critical_below ''/dev/i2c-1'' 72 (Fin 5) (Fin 8), 2)
   \<and> critical (fst (verdict ''/dev/i2c-1'' 72 PInf (Fin 8) (Fin 2)))
   \<and> verdict ''/dev/i2c-1'' 72 NaN (Fin 8) (Fin 2) = (Ok_line ''/dev/i2c-1'' 72 NaN, 0)"
  using inverted_bounds_critical_unless_nan [of "Fin 8" "Fin 2" "Fin 5" "''/dev/i2c-1''" 72]
    inverted_bounds_critical_unless_nan [of "Fin 8" "Fin 2" PInf "''/dev/i2c-1''" 72]
  by (simp add: fgt_def)

section \<open>Facts about the command line and the argument checks\<close>

lemma getopt_loop_append:
  "getopt_loop s (xs @ ys) =
     (case getopt_loop s xs of None \<Rightarrow> None | Some s' \<Rightarrow> getopt_loop s' ys)"
  by (induction xs arbitrary: s) (auto split: option.splits)

lemma switch_opt_keeps_minpressure:
  "switch_opt s c = Some s' \<Longrightarrow> \<forall>x. c \<noteq> Opt_m x \<Longrightarrow> minpressure s' = minpressure s"
  by (cases c) auto

lemma switch_opt_keeps_maxpressure:
  "switch_opt s c = Some s' \<Longrightarrow> \<forall>x. c \<noteq> Opt_M x \<Longrightarrow> maxpressure s' = maxpressure s"
  by (cases c) auto

lemma getopt_loop_keeps_minpressure:
  "getopt_loop s cs = Some s' \<Longrightarrow> \<forall>x. Opt_m x \<notin> set cs \<Longrightarrow> minpressure s' = minpressure s"
proof (induction cs arbitrary: s)
  case Nil
  then show ?case by simp
next
  case (Cons c cs)
  from Cons.prems(1) obtain s1
    where s1: "switch_opt s c = Some s1" "getopt_loop s1 cs = Some s'"
    by (auto split: option.splits)
  from Cons.prems(2) have "\<forall>x. c \<noteq> Opt_m x" "\<forall>x. Opt_m x \<notin> set cs" by auto
  with s1 Cons.IH [of s1] switch_opt_keeps_minpressure [of s c s1] show ?case by simp
qed

lemma getopt_loop_keeps_maxpressure:
  "getopt_loop s cs = Some s' \<Longrightarrow> \<forall>x. Opt_M x \<notin> set cs \<Longrightarrow> maxpressure s' = maxpressure s"
proof (induction cs arbitrary: s)
  case Nil
  then show ?case by simp
next
  case (Cons c cs)
  from Cons.prems(1) obtain s1
    where s1: "switch_opt s c = Some s1" "getopt_loop s1 cs = Some s'"
    by (auto split: option.splits)
  from Cons.prems(2) have "\<forall>x. c \<noteq> Opt_M x" "\<forall>x. Opt_M x \<notin> set cs" by auto
  with s1 Cons.IH [of s1] switch_opt_keeps_maxpressure [of s c s1] show ?case by simp
qed

lemma explicit_m_sentinel_like_omitted:
  assumes "narrow x = Fin (- 1)" and "\<forall>z. Opt_m z \<notin> set front"
  shows "getopt_loop defaults (front @ Opt_m x # rest) = getopt_loop defaults (front @ rest)"
proof (cases "getopt_loop defaults front")
  case None
  then show ?thesis by (simp add: getopt_loop_append)
next
  case (Some s1)
  with assms(2) have "minpressure s1 = Fin (- 1)"
    using getopt_loop_keeps_minpressure [of defaults front s1] by (simp add: defaults_def)
  then have "s1\<lparr>minpressure := Fin (- 1)\<rparr> = s1" by simp
  with Some assms(1) show ?thesis by (simp add: getopt_loop_append)
qed

lemma explicit_M_sentinel_like_omitted:
  assumes "narrow x = Fin (- 1)" and "\<forall>z. Opt_M z \<notin> set front"
  shows "getopt_loop defaults (front @ Opt_M x # rest) = getopt_loop defaults (front @ rest)"
proof (cases "getopt_loop defaults front")
  case None
  then show ?thesis by (simp add: getopt_loop_append)
next
  case (Some s1)
  with assms(2) have "maxpressure s1 = Fin (- 1)"
    using getopt_loop_keeps_maxpressure [of defaults front s1] by (simp add: defaults_def)
  then have "s1\<lparr>maxpressure := Fin (- 1)\<rparr> = s1" by simp
  with Some assms(1) show ?thesis by (simp add: getopt_loop_append)
qed

lemma acquire_touches_bus: "acquire b s = Some r \<Longrightarrow> trace r \<noteq> []"
  by (auto simp add: acquire_def Let_def split: if_splits option.splits prod.splits)

text \<open>
  C6. When the channel requested on the command line is below 1 or above 4, the program
  prints the input error and exits with \<^verbatim>\<open>EXIT_FAILURE\<close> without a single bus call,
  whatever the bus would answer.
\<close>

theorem bad_channel_rejected_before_bus:
  assumes "getopt_loop defaults args = Some s" and "input s < 1 \<or> input s > 4"
  shows "main b args = Some \<lparr>out = [Input_error], status = EXIT_FAILURE, trace = []\<rparr>"
  using assms by (simp add: main_def)

theorem bad_channel_rejected_before_bus_witness:
  "\<forall>b. getopt_loop defaults [Opt_i 0] = Some (defaults\<lparr>input := 0\<rparr>)
     \<and> (input (defaults\<lparr>input := 0\<rparr>) < 1 \<or> input (defaults\<lparr>input := 0\<rparr>) > 4)
     \<and> main b [Opt_i 0] = Some \<lparr>out = [Input_error], status = 1, trace = []\<rparr>
     \<and> getopt_loop defaults [Opt_m (Fin 2), Opt_i 5, Opt_M (Fin 8)]
         = Some (defaults\<lparr>input := 5, minpressure := Fin 2, maxpressure := Fin 8\<rparr>)
     \<and> main b [Opt_m (Fin 2), Opt_i 5, Opt_M (Fin 8)]
         = Some \<lparr>out = [Input_error], status = 1, trace = []\<rparr>"
  using bad_channel_rejected_before_bus [of "[Opt_i 0]" "defaults\<lparr>input := 0\<rparr>"]
    bad_channel_rejected_before_bus [of "[Opt_m (Fin 2), Opt_i 5, Opt_M (Fin 8)]"
      "defaults\<lparr>input := 5, minpressure := Fin 2, maxpressure := Fin 8\<rparr>"]
  by (simp add: defaults_def EXIT_FAILURE_def round32_examples)

text \<open>
  C9, as the code has it. The missing-threshold check compares the \<^verbatim>\<open>float\<close> variable
  with its initial value -1.0. An explicit \<^verbatim>\<open>-m\<close> (or \<^verbatim>\<open>-M\<close>) whose value narrows to the
  float -1.0, given where no \<^verbatim>\<open>-m\<close> (\<^verbatim>\<open>-M\<close>) came before, makes the program behave
  exactly as if the option were not there; -1.0 itself is such a value, and the finite
  values that narrow to -1.0 are those from \<open>- (1 + 1 / 2 ^ 24)\<close> to
  \<open>- (1 - 1 / 2 ^ 25)\<close>. With a valid channel the program exits with the "must be
  present" error exactly when the final minimum or maximum is -1.0; given just \<^verbatim>\<open>-m u\<close>
  and \<^verbatim>\<open>-M v\<close>, exactly when \<open>u\<close> or \<open>v\<close> narrows to -1.0. Explicit values that do not
  narrow to -1.0, other negative values, infinities and NaN included, pass the check and
  the program goes on to the bus.
\<close>

theorem sentinel_threshold_check:
  "(narrow x = Fin (- 1) \<and> (\<forall>z. Opt_m z \<notin> set front) \<longrightarrow>
        main b (front @ Opt_m x # rest) = main b (front @ rest))
   \<and> (narrow x = Fin (- 1) \<and> (\<forall>z. Opt_M z \<notin> set front) \<longrightarrow>
        main b (front @ Opt_M x # rest) = main b (front @ rest))
   \<and> narrow (Fin (- 1)) = Fin (- 1)
   \<and> (narrow (Fin r) = Fin (- 1)) = (- (1 + 1 / 2 ^ 24) \<le> r \<and> r \<le> - (1 - 1 / 2 ^ 25))
   \<and> (getopt_loop defaults args = Some s \<and> 1 \<le> input s \<and> input s \<le> 4 \<longrightarrow>
        (main b args = Some \<lparr>out = [Threshold_error], status = EXIT_FAILURE, trace = []\<rparr>)
          = (minpressure s = Fin (- 1) \<or> maxpressure s = Fin (- 1)))
   \<and> (main b [Opt_m u, Opt_M v]
          = Some \<lparr>out = [Threshold_error], status = EXIT_FAILURE, trace = []\<rparr>)
        = (narrow u = Fin (- 1) \<or> narrow v = Fin (- 1))
   \<and> (narrow u \<noteq> Fin (- 1) \<and> narrow v \<noteq> Fin (- 1) \<longrightarrow>
        main b [Opt_m u, Opt_M v]
          = acquire b (defaults\<lparr>minpressure := narrow u, maxpressure := narrow v\<rparr>))"
proof -
  have m: "main b (front @ Opt_m x # rest) = main b (front @ rest)"
    if "narrow x = Fin (- 1)" "\<forall>z. Opt_m z \<notin> set front"
    using explicit_m_sentinel_like_omitted [OF that, of rest] by (simp add: main_def)
  have M: "main b (front @ Opt_M x # rest) = main b (front @ rest)"
    if "narrow x = Fin (- 1)" "\<forall>z. Opt_M z \<notin> set front"
    using explicit_M_sentinel_like_omitted [OF that, of rest] by (simp add: main_def)
  have n: "narrow (Fin (- 1)) = Fin (- 1)"
    by (simp add: round32_minus_one)
  have c: "(narrow (Fin r) = Fin (- 1)) = (- (1 + 1 / 2 ^ 24) \<le> r \<and> r \<le> - (1 - 1 / 2 ^ 25))"
    using round32_eq_minus_one_iff [of r] by simp
  have r: "(main b args = Some \<lparr>out = [Threshold_error], status = EXIT_FAILURE, trace = []\<rparr>)
          = (minpressure s = Fin (- 1) \<or> maxpressure s = Fin (- 1))"
    if "getopt_loop defaults args = Some s" "1 \<le> input s" "input s \<le> 4"
  proof (cases "minpressure s = Fin (- 1) \<or> maxpressure s = Fin (- 1)")
    case True
    with that show ?thesis by (auto simp add: main_def feq_Fin)
  next
    case False
    with that have "main b args = acquire b s" by (auto simp add: main_def feq_Fin)
    with False acquire_touches_bus [of b s] show ?thesis by auto
  qed
  have e: "main b [Opt_m u, Opt_M v]
      = acquire b (defaults\<lparr>minpressure := narrow u, maxpressure := narrow v\<rparr>)"
    if "narrow u \<noteq> Fin (- 1)" "narrow v \<noteq> Fin (- 1)"
    using that by (simp add: main_def defaults_def feq_Fin)
  have t: "(main b [Opt_m u, Opt_M v]
          = Some \<lparr>out = [Threshold_error], status = EXIT_FAILURE, trace = []\<rparr>)
        = (narrow u = Fin (- 1) \<or> narrow v = Fin (- 1))"
  proof (cases "narrow u = Fin (- 1) \<or> narrow v = Fin (- 1)")
    case True
    then show ?thesis by (auto simp add: main_def defaults_def feq_Fin)
  next
    case False
    with e acquire_touches_bus [of b "defaults\<lparr>minpressure := narrow u, maxpressure := narrow v\<rparr>"]
    show ?thesis by auto
  qed
  from m M n c r t e show ?thesis by blast
qed

theorem sentinel_threshold_check_witness:
  "\<forall>b. narrow (Fin (- (1073741825 / 1073741824))) = Fin (- 1)
     \<and> main b [Opt_m (Fin (- (1073741825 / 1073741824))), Opt_M (Fin 8)] = main b [Opt_M (Fin 8)]
     \<and> main b [Opt_m (Fin (- 1)), Opt_M (Fin 8)] = main b [Opt_M (Fin 8)]
     \<and> main b [Opt_m (Fin 2), Opt_M (Fin (- 1))] = main b [Opt_m (Fin 2)]
     \<and> main b [Opt_M (Fin 8)] = Some \<lparr>out = [Threshold_error], status = 1, trace = []\<rparr>
     \<and> main b [Opt_m (Fin (- 2)), Opt_M (Fin 8)]
         = acquire b (defaults\<lparr>minpressure := Fin (- 2), maxpressure := Fin 8\<rparr>)
     \<and> main b [Opt_m NaN, Opt_M PInf]
         = acquire b (defaults\<lparr>minpressure := NaN, maxpressure := PInf\<rparr>)"
proof
  fix b
  let ?s = "defaults\<lparr>maxpressure := Fin 8\<rparr>"
  have g: "getopt_loop defaults [Opt_M (Fin 8)] = Some ?s"
    by (simp add: defaults_def round32_examples)
  have i: "1 \<le> input ?s" "input ?s \<le> 4" "minpressure ?s = Fin (- 1)"
    by (simp_all add: defaults_def)
  have n: "narrow (Fin (- (1073741825 / 1073741824))) = Fin (- 1)" "narrow (Fin (- 1)) = Fin (- 1)"
    "narrow (Fin (- 2)) = Fin (- 2)" "narrow (Fin 8) = Fin 8"
    using round32_near_minus_one round32_minus_one round32_examples by simp_all
  from g i n
    sentinel_threshold_check [of "Fin (- (1073741825 / 1073741824))" "[]" b "[Opt_M (Fin 8)]"
      "- 1" "[Opt_M (Fin 8)]" ?s "Fin (- 2)" "Fin 8"]
    sentinel_threshold_check [of "Fin (- 1)" "[]" b "[Opt_M (Fin 8)]"
      "- 1" "[Opt_M (Fin 8)]" ?s NaN PInf]
    sentinel_threshold_check [of "Fin (- 1)" "[Opt_m (Fin 2)]" b "[]"
      "- 1" "[Opt_M (Fin 8)]" ?s NaN PInf]
  show "narrow (Fin (- (1073741825 / 1073741824))) = Fin (- 1)
     \<and> main b [Opt_m (Fin (- (1073741825 / 1073741824))), Opt_M (Fin 8)] = main b [Opt_M (Fin 8)]
     \<and> main b [Opt_m (Fin (- 1)), Opt_M (Fin 8)] = main b [Opt_M (Fin 8)]
     \<and> main b [Opt_m (Fin 2), Opt_M (Fin (- 1))] = main b [Opt_m (Fin 2)]
     \<and> main b [Opt_M (Fin 8)] = Some \<lparr>out = [Threshold_error], status = 1, trace = []\<rparr>
     \<and> main b [Opt_m (Fin (- 2)), Opt_M (Fin 8)]
         = acquire b (defaults\<lparr>minpressure := Fin (- 2), maxpressure := Fin 8\<rparr>)
     \<and> main b [Opt_m NaN, Opt_M PInf]
         = acquire b (defaults\<lparr>minpressure := NaN, maxpressure := PInf\<rparr>)"
    by (simp add: EXIT_FAILURE_def)
qed

text \<open>
  C9 as stated lets every explicit value other than -1.0 pass the check. The double
  \<open>- (1 + 1 / 2 ^ 30)\<close>, that is -1073741825 / 1073741824, is not -1.0, but
  \<^verbatim>\<open>minpressure = atof(optarg)\<close> narrows it to the float -1.0: given as \<^verbatim>\<open>-m\<close> together
  with \<^verbatim>\<open>-M 8\<close>, the program exits with the "must be present" error before any bus
  call.
\<close>

theorem sentinel_near_minus_one_counterexample:
  "- (1073741825 / 1073741824) \<noteq> (- 1 :: real)
   \<and> main (ready_bus 0x18 0xD8) [Opt_m (Fin (- (1073741825 / 1073741824))), Opt_M (Fin 8)]
       = Some \<lparr>out = [Threshold_error], status = 1, trace = []\<rparr>"
  by (simp add: main_def defaults_def round32_near_minus_one round32_examples EXIT_FAILURE_def)

section \<open>Complete runs\<close>

lemma poll_ready_bus: "poll (read_result (ready_bus b0 b1)) 0 = Some (True, 2)"
  by (simp add: poll.simps ready_bus_def)

lemma replicate_two: "replicate 2 x = [x, x]"
  by (simp add: numeral_2_eq_2)

lemma report_midpoint:
  "report (defaults\<lparr>minpressure := Fin 2, maxpressure := Fin 8\<rparr>) 0x18 0xD8
     = ([Ok_line ''/dev/i2c-1'' 0x48 (Fin 5)], 0)"
  by (simp add: report_def convert_def val_of_bytes_def clamp_val_def out_of_range_def
      slope_Fin con_Fin pressure_Fin verdict_def fgt_def defaults_def)

text \<open>
  With \<^verbatim>\<open>-m 2 -M 8\<close> and a converter that is ready on the second poll and delivers the
  midpoint sample 6360 (bytes 0x18, 0xD8), the program returns: it prints the OK line
  with the pressure 5, exits with status 0, and has made the bus calls of the protocol in
  order.
\<close>

lemma nominal_run:
  "main (ready_bus 0x18 0xD8) [Opt_m (Fin 2), Opt_M (Fin 8)] =
     Some \<lparr>out = [Ok_line ''/dev/i2c-1'' 0x48 (Fin 5)], status = 0,
       trace = [Bus_open ''/dev/i2c-1'', Bus_ioctl 0x48, Bus_write [1, 0xC1, 0x85],
                Bus_read 2, Bus_read 2, Bus_write [0], Bus_read 2, Bus_close]\<rparr>"
proof -
  let ?s = "defaults\<lparr>minpressure := Fin 2, maxpressure := Fin 8\<rparr>"
  have g: "getopt_loop defaults [Opt_m (Fin 2), Opt_M (Fin 8)] = Some ?s"
    by (simp add: round32_examples)
  have i: "input ?s = 1" "verbose ?s = 0" "i2cdevice ?s = ''/dev/i2c-1''" "ads_address ?s = 0x48"
    "\<not> feq (minpressure ?s) (Fin (- 1))" "\<not> feq (maxpressure ?s) (Fin (- 1))"
    by (simp_all add: defaults_def)
  have r: "read_result (ready_bus 0x18 0xD8) 2 = (2, 0x18, 0xD8)"
    "open_result (ready_bus 0x18 0xD8) d = 3" "ioctl_result (ready_bus 0x18 0xD8) a = 0"
    "write_result (ready_bus 0x18 0xD8) k bs = int (length bs)" for d a k bs
    by (simp_all add: ready_bus_def)
  show ?thesis
    unfolding main_def g
    by (simp add: acquire_def i r poll_ready_bus report_midpoint replicate_two debug1_def
        writeBuf_def config_high_def Let_def)
qed

lemma report_nan:
  "report (defaults\<lparr>low := NaN, minpressure := Fin 8, maxpressure := Fin 2\<rparr>) 0x18 0xD8
     = ([Ok_line ''/dev/i2c-1'' 0x48 NaN], 0)"
  by (simp add: report_def convert_def pressure_NaN_low verdict_def fgt_def defaults_def Let_def)

text \<open>
  C10 as stated makes OK unreachable when the minimum is above the maximum. With
  \<^verbatim>\<open>-l nan -m 8 -M 2\<close> the endpoint \<open>low\<close> is NaN, so slope, constant and pressure are
  NaN; the tests \<^verbatim>\<open>pressure < 0.0\<close>, \<^verbatim>\<open>pressure < minpressure\<close> and
  \<^verbatim>\<open>pressure > maxpressure\<close> are all false, and the program prints the OK line and exits
  with status 0, on the same bus as above.
\<close>

theorem inverted_bounds_nan_ok_counterexample:
  "fgt (Fin 8) (Fin 2)
   \<and> main (ready_bus 0x18 0xD8) [Opt_l NaN, Opt_m (Fin 8), Opt_M (Fin 2)] =
     Some \<lparr>out = [Ok_line ''/dev/i2c-1'' 0x48 NaN], status = 0,
       trace = [Bus_open ''/dev/i2c-1'', Bus_ioctl 0x48, Bus_write [1, 0xC1, 0x85],
                Bus_read 2, Bus_read 2, Bus_write [0], Bus_read 2, Bus_close]\<rparr>"
proof -
  let ?s = "defaults\<lparr>low := NaN, minpressure := Fin 8, maxpressure := Fin 2\<rparr>"
  have g: "getopt_loop defaults [Opt_l NaN, Opt_m (Fin 8), Opt_M (Fin 2)] = Some ?s"
    by (simp add: round32_examples)
  have i: "input ?s = 1" "verbose ?s = 0" "i2cdevice ?s = ''/dev/i2c-1''" "ads_address ?s = 0x48"
    "\<not> feq (minpressure ?s) (Fin (- 1))" "\<not> feq (maxpressure ?s) (Fin (- 1))"
    by (simp_all add: defaults_def)
  have r: "read_result (ready_bus 0x18 0xD8) 2 = (2, 0x18, 0xD8)"
    "open_result (ready_bus 0x18 0xD8) d = 3" "ioctl_result (ready_bus 0x18 0xD8) a = 0"
    "write_result (ready_bus 0x18 0xD8) k bs = int (length bs)" for d a k bs
    by (simp_all add: ready_bus_def)
  have m: "main (ready_bus 0x18 0xD8) [Opt_l NaN, Opt_m (Fin 8), Opt_M (Fin 2)] =
     Some \<lparr>out = [Ok_line ''/dev/i2c-1'' 0x48 NaN], status = 0,
       trace = [Bus_open ''/dev/i2c-1'', Bus_ioctl 0x48, Bus_write [1, 0xC1, 0x85],
                Bus_read 2, Bus_read 2, Bus_write [0], Bus_read 2, Bus_close]\<rparr>"
    unfolding main_def g
    by (simp add: acquire_def i r poll_ready_bus report_nan replicate_two debug1_def
        writeBuf_def config_high_def Let_def)
  then show ?thesis by (simp add: fgt_def)
qed

end
